theory Spec2Isabelle
  imports Complex_Main "HOL-Library.Char_ord" "HOL-Library.List_Lexorder"
begin

section \<open>ZoneGuard: the analytics pipeline\<close>

text \<open>
  A shallow embedding of the forecasting, anomaly, reasoning, action, orchestration and
  evaluation code of ZoneGuard. Python floats are modelled as reals, with exact
  arithmetic; the explicit \<open>round(x, n)\<close> calls of the source are kept, as rounding to the
  nearest value with \<open>n\<close> decimals. Timestamps are those of pandas, a 64-bit count of
  nanoseconds. The library models (the gradient-boosted regressor, the isolation forest), the clock,
  the explanation service and the text renderings of the standard library are
  parameters of the functions that use them.
\<close>

subsection \<open>JSON values and the library\<close>

text \<open>
  An event is a \<open>dict[str, Any]\<close> that arrives as JSON; a dict is an association list.
\<close>

datatype json =
  JNull | JBool bool | JNum real | JStr string | JArr "json list" | JObj "(string \<times> json) list"

text \<open>
  What the code takes from the Python runtime and its libraries and whose details no
  property here depends on: the \<open>repr\<close> of a float inside \<open>json.dumps\<close>, the escaping of a
  string there, the \<open>:.2f\<close> format, \<open>str\<close> of a value that is not a string, the parsing of a
  string by \<open>float\<close>, \<open>isoformat\<close> of a timestamp, and the direction in which \<open>round(x, n)\<close>
  goes when \<open>x\<close> lies exactly halfway between two values with \<open>n\<close> decimals (it follows
  the binary value of the float that \<open>x\<close> stands for, which lies above or below the
  halfway point, or on it, and then the even neighbour is taken).
\<close>

record pylib =
  num_repr :: "real \<Rightarrow> string"
  str_escape :: "string \<Rightarrow> string"
  fmt2f :: "real \<Rightarrow> string"
  str_value :: "json \<Rightarrow> string"
  float_of_str :: "string \<Rightarrow> real option"
  isoformat :: "int \<Rightarrow> string"
  round_tie_up :: "real \<Rightarrow> nat \<Rightarrow> bool"

subsection \<open>Errors and numeric helpers\<close>

text \<open>
  The exceptions the modelled code can raise: the \<open>ValueError\<close>s it raises itself, with
  their messages, the interpreter's errors on a value of the wrong shape, and the error
  of pandas on a timestamp beyond its range.
\<close>

datatype error = ValueError string | TypeError | AttributeError | OutOfBoundsDatetime

definition clip :: "real \<Rightarrow> real \<Rightarrow> real \<Rightarrow> real" where
  \<comment> \<open>\<open>np.clip(x, lo, hi)\<close> is \<open>minimum(maximum(x, lo), hi)\<close>.\<close>
  "clip x lo hi = min (max x lo) hi"

definition py_round :: "pylib \<Rightarrow> real \<Rightarrow> nat \<Rightarrow> real" where
  \<comment> \<open>\<open>round(x, n)\<close>: the nearest value with \<open>n\<close> decimals; halfway, the library decides.\<close>
  "py_round lib x n =
     (let y = x * 10 ^ n; f = \<lfloor>y\<rfloor>; d = y - of_int f
      in of_int (if d < 1 / 2 then f
                 else if 1 / 2 < d then f + 1
                 else if round_tie_up lib x n then f + 1 else f) / 10 ^ n)"

text \<open>\<open>str\<close> of an integer: its decimal digits, with a sign when negative.\<close>

function show_nat :: "nat \<Rightarrow> string" where
  "show_nat n =
     (if n < 10 then [char_of (48 + n)]
      else show_nat (n div 10) @ [char_of (48 + n mod 10)])"
  by pat_completeness auto
termination
  by (relation "measure id") auto

definition show_int :: "int \<Rightarrow> string" where
  "show_int i = (if i < 0 then ''-'' @ show_nat (nat (- i)) else show_nat (nat i))"

subsection \<open>Observations and feature rows\<close>

text \<open>
  One row of the history frame. The columns are those of \<open>OperationalRecord\<close>, whose
  numeric columns are non-nullable floats; a timestamp is a number of nanoseconds since
  the epoch (a naive datetime), at most \<open>timestamp_max\<close>. \<open>sort_values("timestamp")\<close> is \<open>sort_key timestamp\<close>: rows
  with equal timestamps, which a zone's history does not have, keep their frame order.
\<close>

record observation =
  zone_id :: string
  timestamp :: int
  demand :: real
  drivers :: real
  inventory :: real
  weather :: string
  availability :: real

text \<open>
  A row of the frame \<open>_build_features\<close> works on: the observation and the five derived
  columns. The lag and rolling columns hold \<open>None\<close> for NaN until \<open>dropna\<close>, and a real
  afterwards.
\<close>

record 'a feature_row = observation +
  hour :: real
  dayofweek :: real
  weather_idx :: real
  availability_lag_1 :: 'a
  availability_roll_3 :: 'a

definition hour_ns :: int where
  "hour_ns = 3600000000000"

definition timestamp_max :: int where
  \<comment> \<open>\<open>pd.Timestamp.max\<close>, 2262-04-11T23:47:16.854775807\<close>
  "timestamp_max = 2 ^ 63 - 1"

definition ts_hour :: "int \<Rightarrow> int" where
  "ts_hour ts = (ts div hour_ns) mod 24"

definition ts_dayofweek :: "int \<Rightarrow> int" where
  \<comment> \<open>Monday is 0; the epoch fell on a Thursday.\<close>
  "ts_dayofweek ts = (ts div (24 * hour_ns) + 3) mod 7"

definition encode_weather :: "string \<Rightarrow> real" where
  "encode_weather w =
     (if w = ''clear'' then 0 else if w = ''rain'' then 1
      else if w = ''storm'' then 2 else if w = ''snow'' then 3 else 0)"

definition shift1 :: "'a option list \<Rightarrow> 'a option list" where
  \<comment> \<open>\<open>Series.shift(1)\<close>: NaN first, the last value falls off.\<close>
  "shift1 xs = (if xs = [] then [] else None # butlast xs)"

definition mean :: "real list \<Rightarrow> real" where
  "mean xs = sum_list xs / real (length xs)"

definition rolling_mean :: "nat \<Rightarrow> nat \<Rightarrow> real list \<Rightarrow> real option list" where
  \<comment> \<open>\<open>Series.rolling(window=w, min_periods=p).mean()\<close> on a column without NaN.\<close>
  "rolling_mean w p xs =
     map (\<lambda>i. let win = drop (Suc i - w) (take (Suc i) xs)
               in if p \<le> length win then Some (mean win) else None)
         [0..<length xs]"

definition with_features ::
  "observation \<Rightarrow> 'a \<Rightarrow> 'a \<Rightarrow> 'a feature_row" where
  "with_features r lag roll =
     observation.extend r
       (feature_row.fields (real_of_int (ts_hour (timestamp r)))
          (real_of_int (ts_dayofweek (timestamp r)))
          (encode_weather (weather r)) lag roll)"

definition obs_of :: "'a feature_row \<Rightarrow> observation" where
  "obs_of r = observation.truncate r"

definition dropna_row :: "real option feature_row \<Rightarrow> real feature_row option" where
  \<comment> \<open>A row survives \<open>dropna\<close> when neither derived column is NaN; its values are kept.\<close>
  "dropna_row r =
     (case (availability_lag_1 r, availability_roll_3 r) of
        (Some l, Some ro) \<Rightarrow>
          Some \<lparr>zone_id = zone_id r, timestamp = timestamp r, demand = demand r,
                drivers = drivers r, inventory = inventory r, weather = weather r,
                availability = availability r, hour = hour r, dayofweek = dayofweek r,
                weather_idx = weather_idx r, availability_lag_1 = l,
                availability_roll_3 = ro\<rparr>
      | _ \<Rightarrow> None)"

definition dropna :: "real option feature_row list \<Rightarrow> real feature_row list" where
  "dropna rows = List.map_filter dropna_row rows"

definition build_features :: "observation list \<Rightarrow> real feature_row list" where
  "build_features df =
     (let ordered = sort_key timestamp df;
          avail = map availability ordered;
          lag = shift1 (map Some avail);
          roll = shift1 (rolling_mean 3 1 avail)
      in dropna (map (\<lambda>(r, l, ro). with_features r l ro) (zip ordered (zip lag roll))))"

subsection \<open>Forecasting agent\<close>

text \<open>
  A fitted regressor is the function its \<open>predict\<close> computes on one feature vector; the
  fitting procedure \<open>fit X y\<close> of the library is a parameter.
\<close>

type_synonym model = "real list \<Rightarrow> real"
type_synonym models = "string \<rightharpoonup> model"
type_synonym fitter = "real list list \<Rightarrow> real list \<Rightarrow> model"

definition feature_cols :: "real feature_row \<Rightarrow> real list" where
  "feature_cols r =
     [hour r, dayofweek r, demand r, drivers r, inventory r, weather_idx r,
      availability_lag_1 r, availability_roll_3 r]"

definition zone_frame :: "observation list \<Rightarrow> string \<Rightarrow> observation list" where
  "zone_frame df z = filter (\<lambda>r. zone_id r = z) df"

definition groupby_keys :: "observation list \<Rightarrow> string list" where
  "groupby_keys df = sort (remdups (map zone_id df))"

fun train_zones :: "fitter \<Rightarrow> observation list \<Rightarrow> string list \<Rightarrow> models \<Rightarrow> models" where
  "train_zones fit df [] ms = ms"
| "train_zones fit df (z # zs) ms =
     (let feats = build_features (zone_frame df z)
      in if length feats < 30 then train_zones fit df zs ms
         else train_zones fit df zs
                (ms(z \<mapsto> fit (map feature_cols feats) (map availability feats))))"

definition train :: "fitter \<Rightarrow> observation list \<Rightarrow> models \<Rightarrow> models" where
  "train fit df ms = train_zones fit df (groupby_keys df) ms"

record prediction =
  pred_timestamp :: string
  predicted_availability :: real

record forecast_result =
  fr_zone_id :: string
  horizon_hours :: int
  predictions :: "prediction list"

record loop_state =
  current_ts :: int
  current_row :: "real feature_row"
  preds :: "prediction list"

definition step_input :: "loop_state \<Rightarrow> real feature_row" where
  \<comment> \<open>The row the model sees in one iteration: the clock fields follow the new timestamp.\<close>
  "step_input s =
     (current_row s)\<lparr>hour := real_of_int (ts_hour (current_ts s + hour_ns)),
                     dayofweek := real_of_int (ts_dayofweek (current_ts s + hour_ns))\<rparr>"

definition step_yhat :: "model \<Rightarrow> loop_state \<Rightarrow> real" where
  "step_yhat m s = clip (m (feature_cols (step_input s))) 0 1"

text \<open>
  One iteration: \<open>current_ts + timedelta(hours=1)\<close> raises when the sum is beyond the
  largest timestamp; otherwise the body of the loop runs.
\<close>

definition loop_body :: "pylib \<Rightarrow> model \<Rightarrow> loop_state \<Rightarrow> loop_state" where
  "loop_body lib m s =
     (let ts = current_ts s + hour_ns;
          row = step_input s;
          yhat = step_yhat m s
      in \<lparr>current_ts = ts,
          current_row = row\<lparr>availability_lag_1 := yhat,
                            availability_roll_3 := (availability_roll_3 row * 2 + yhat) / 3\<rparr>,
          preds = preds s @ [\<lparr>pred_timestamp = isoformat lib ts,
                               predicted_availability = py_round lib yhat 4\<rparr>]\<rparr>)"

definition predict_step :: "pylib \<Rightarrow> model \<Rightarrow> loop_state \<Rightarrow> error + loop_state" where
  "predict_step lib m s =
     (if timestamp_max < current_ts s + hour_ns then Inl OutOfBoundsDatetime
      else Inr (loop_body lib m s))"

fun predict_loop :: "pylib \<Rightarrow> model \<Rightarrow> nat \<Rightarrow> loop_state \<Rightarrow> error + loop_state" where
  "predict_loop lib m 0 s = Inr s"
| "predict_loop lib m (Suc n) s =
     (case predict_step lib m s of
        Inl e \<Rightarrow> Inl e
      | Inr s' \<Rightarrow> predict_loop lib m n s')"

definition predict ::
  "pylib \<Rightarrow> models \<Rightarrow> observation list \<Rightarrow> string \<Rightarrow> int \<Rightarrow> error + forecast_result" where
  "predict lib ms df z h =
     (case ms z of
        None \<Rightarrow> Inl (ValueError (''No model trained for '' @ z))
      | Some m \<Rightarrow>
          (let zone_df = sort_key timestamp (zone_frame df z);
               feats_df = build_features zone_df
           in if feats_df = [] then Inl (ValueError (''Insufficient feature history for '' @ z))
              else
                (case predict_loop lib m (nat h)
                        \<lparr>current_ts = timestamp (last feats_df),
                         current_row = last feats_df, preds = []\<rparr> of
                   Inl e \<Rightarrow> Inl e
                 | Inr s \<Rightarrow>
                     Inr \<lparr>fr_zone_id = z, horizon_hours = h, predictions = preds s\<rparr>)))"

subsection \<open>JSON text\<close>

fun join :: "string \<Rightarrow> string list \<Rightarrow> string" where
  "join sep [] = []"
| "join sep [x] = x"
| "join sep (x # y # ys) = x @ sep @ join sep (y # ys)"

fun json_dumps :: "pylib \<Rightarrow> json \<Rightarrow> string" where
  "json_dumps lib JNull = ''null''"
| "json_dumps lib (JBool b) = (if b then ''true'' else ''false'')"
| "json_dumps lib (JNum r) = num_repr lib r"
| "json_dumps lib (JStr s) = [CHR 0x22] @ str_escape lib s @ [CHR 0x22]"
| "json_dumps lib (JArr vs) = ''['' @ join '', '' (map (json_dumps lib) vs) @ '']''"
| "json_dumps lib (JObj kvs) =
     ''{'' @ join '', ''
              (map (\<lambda>kv. [CHR 0x22] @ str_escape lib (fst kv) @ [CHR 0x22] @ '': ''
                          @ json_dumps lib (snd kv)) kvs) @ ''}''"

definition py_str :: "pylib \<Rightarrow> json \<Rightarrow> string" where
  "py_str lib v = (case v of JStr s \<Rightarrow> s | _ \<Rightarrow> str_value lib v)"

definition py_float :: "pylib \<Rightarrow> json \<Rightarrow> error + real" where
  "py_float lib v =
     (case v of
        JNum r \<Rightarrow> Inr r
      | JBool b \<Rightarrow> Inr (if b then 1 else 0)
      | JStr s \<Rightarrow> (case float_of_str lib s of
                    Some r \<Rightarrow> Inr r
                  | None \<Rightarrow> Inl (ValueError (''could not convert string to float: '' @ s)))
      | _ \<Rightarrow> Inl TypeError)"

definition dict_get :: "(string \<times> json) list \<Rightarrow> string \<Rightarrow> json \<Rightarrow> json" where
  "dict_get d k dflt = (case map_of d k of Some v \<Rightarrow> v | None \<Rightarrow> dflt)"

definition attr_get :: "json \<Rightarrow> string \<Rightarrow> json \<Rightarrow> error + json" where
  \<comment> \<open>\<open>v.get(k, dflt)\<close> on a value that may not be a dict.\<close>
  "attr_get v k dflt = (case v of JObj d \<Rightarrow> Inr (dict_get d k dflt) | _ \<Rightarrow> Inl AttributeError)"

definition get_float :: "pylib \<Rightarrow> json \<Rightarrow> string \<Rightarrow> real \<Rightarrow> error + real" where
  \<comment> \<open>\<open>float(v.get(k, dflt))\<close>\<close>
  "get_float lib v k dflt =
     (case attr_get v k (JNum dflt) of Inl e \<Rightarrow> Inl e | Inr x \<Rightarrow> py_float lib x)"

subsection \<open>Anomaly agent\<close>

text \<open>
  The fitted isolation forest is the pair of functions it computes on one row
  (\<open>fit_predict\<close> is \<open>fit\<close> followed by \<open>predict\<close> on the same rows); fitting, with its
  fixed seed, is a parameter that takes the contamination and the rows.
\<close>

record isolation_forest =
  if_predict :: "real list \<Rightarrow> int"
  score_samples :: "real list \<Rightarrow> real"

type_synonym forest_fitter = "real \<Rightarrow> real list list \<Rightarrow> isolation_forest"

record snapshot =
  snap_demand :: real
  snap_drivers :: real
  snap_inventory :: real
  snap_availability :: real
  snap_weather :: string

record anomaly_event =
  event_id :: string
  ev_timestamp :: string
  ev_zone_id :: string
  score :: real
  snapshot :: snapshot

record anomaly_result =
  ar_zone_id :: string
  events :: "anomaly_event list"

definition tail :: "int \<Rightarrow> 'a list \<Rightarrow> 'a list" where
  \<comment> \<open>\<open>DataFrame.tail(n)\<close>: the last \<open>n\<close> rows; for negative \<open>n\<close>, all but the first \<open>-n\<close>.\<close>
  "tail n xs = (if 0 \<le> n then drop (length xs - nat n) xs else drop (nat (- n)) xs)"

definition metric_cols :: "observation \<Rightarrow> real list" where
  "metric_cols r = [demand r, drivers r, inventory r, availability r]"

definition is_anomaly :: "isolation_forest \<Rightarrow> observation \<Rightarrow> bool" where
  "is_anomaly f r = (if_predict f (metric_cols r) = - 1)"

definition make_event :: "pylib \<Rightarrow> isolation_forest \<Rightarrow> observation \<Rightarrow> anomaly_event" where
  "make_event lib f r =
     \<lparr>event_id = zone_id r @ '':'' @ isoformat lib (timestamp r),
      ev_timestamp = isoformat lib (timestamp r),
      ev_zone_id = zone_id r,
      score = py_round lib (- score_samples f (metric_cols r)) 4,
      snapshot = \<lparr>snap_demand = demand r, snap_drivers = drivers r,
                  snap_inventory = inventory r, snap_availability = availability r,
                  snap_weather = weather r\<rparr>\<rparr>"

definition sort_events :: "anomaly_event list \<Rightarrow> anomaly_event list" where
  \<comment> \<open>\<open>events.sort(key=score, reverse=True)\<close>: stable, equal scores keep their order.\<close>
  "sort_events es = sort_key (\<lambda>e. - score e) es"

definition detect ::
  "pylib \<Rightarrow> forest_fitter \<Rightarrow> real \<Rightarrow> observation list \<Rightarrow> string \<Rightarrow> int
     \<Rightarrow> error + anomaly_result" where
  "detect lib forest contamination df z lookback =
     (let zone_df = tail lookback (sort_key timestamp (zone_frame df z))
      in if length zone_df < 20
         then Inl (ValueError (''Insufficient records for anomaly detection in '' @ z))
         else
           (let f = forest contamination (map metric_cols zone_df);
                evs = map (make_event lib f) (filter (is_anomaly f) zone_df)
            in Inr \<lparr>ar_zone_id = z, events = sort_events evs\<rparr>))"

definition snapshot_json :: "snapshot \<Rightarrow> json" where
  "snapshot_json s =
     JObj [(''demand'', JNum (snap_demand s)), (''drivers'', JNum (snap_drivers s)),
           (''inventory'', JNum (snap_inventory s)),
           (''availability'', JNum (snap_availability s)),
           (''weather'', JStr (snap_weather s))]"

definition event_dict :: "anomaly_event \<Rightarrow> (string \<times> json) list" where
  \<comment> \<open>The dict that \<open>detect\<close> builds for one event.\<close>
  "event_dict e =
     [(''event_id'', JStr (event_id e)), (''timestamp'', JStr (ev_timestamp e)),
      (''zone_id'', JStr (ev_zone_id e)), (''score'', JNum (score e)),
      (''snapshot'', snapshot_json (snapshot e))]"

subsection \<open>Reasoning agent\<close>

text \<open>
  The agent keeps an in-process dict and, when the vector store is installed, a
  collection of documents keyed by id. The similarity query of the store and the call to
  the explanation service are parameters; the call returns \<open>None\<close> when it raises
  (timeout, connection error, error status, unreadable body).
\<close>

record document =
  doc_text :: string
  meta_event_id :: string
  meta_rating :: "int option"

type_synonym collection = "string \<rightharpoonup> document"

record reasoning_agent =
  llm_model :: string
  memory_store :: "string \<rightharpoonup> string"
  collection :: "collection option"

type_synonym store_query = "collection \<Rightarrow> string \<Rightarrow> nat \<Rightarrow> string list"
type_synonym ollama = "string \<Rightarrow> string \<Rightarrow> string option"

record reason_payload =
  rp_event_id :: string
  prompt :: string
  explanation :: string

definition build_prompt :: "pylib \<Rightarrow> (string \<times> json) list \<Rightarrow> string list \<Rightarrow> string" where
  "build_prompt lib event context =
     (let context_text = (if context \<noteq> [] then join [CHR 0x0A] context
                          else ''No prior context available.'')
      in ''You are ZoneGuard root-cause analyst. Provide concise operational explanation and confidence (0-1).''
         @ '' Focus on demand-supply, weather, and inventory dynamics.'' @ [CHR 0x0A]
         @ ''Event: '' @ json_dumps lib (JObj event) @ [CHR 0x0A]
         @ ''Context: '' @ context_text @ [CHR 0x0A]
         @ ''Output JSON with keys: root_cause, evidence, confidence, risks.'')"

definition query_context :: "store_query \<Rightarrow> reasoning_agent \<Rightarrow> string \<Rightarrow> nat \<Rightarrow> string list" where
  "query_context query a eid top_k =
     (case collection a of
        None \<Rightarrow> (case memory_store a eid of Some t \<Rightarrow> [t] | None \<Rightarrow> [])
      | Some c \<Rightarrow> query c eid top_k)"

definition pressure_of :: "real \<Rightarrow> real \<Rightarrow> real" where
  "pressure_of dem drv = dem / max drv 1"

definition fallback_confidence :: "pylib \<Rightarrow> real \<Rightarrow> real" where
  "fallback_confidence lib pressure = py_round lib (min (9 / 10) (45 / 100 + pressure / 5)) 2"

definition fallback_doc :: "pylib \<Rightarrow> real \<Rightarrow> real \<Rightarrow> string \<Rightarrow> json" where
  "fallback_doc lib pressure invt w =
     JObj [(''root_cause'', JStr ''Demand-driver imbalance with environmental disruption''),
           (''evidence'', JArr [JStr (''Demand/driver pressure='' @ fmt2f lib pressure),
                                JStr (''Inventory level='' @ fmt2f lib invt),
                                JStr (''Weather='' @ w)]),
           (''confidence'', JNum (fallback_confidence lib pressure)),
           (''risks'', JArr [JStr ''Service-level breach'', JStr ''Order delays''])]"

definition fallback_explanation :: "pylib \<Rightarrow> (string \<times> json) list \<Rightarrow> error + string" where
  \<comment> \<open>The body of the \<open>except\<close> branch of \<open>reason\<close>.\<close>
  "fallback_explanation lib event =
     (let snap = dict_get event ''snapshot'' (JObj [])
      in case get_float lib snap ''demand'' 0 of Inl e \<Rightarrow> Inl e | Inr dem \<Rightarrow>
         (case get_float lib snap ''drivers'' 1 of Inl e \<Rightarrow> Inl e | Inr drv \<Rightarrow>
         (case get_float lib snap ''inventory'' 1 of Inl e \<Rightarrow> Inl e | Inr invt \<Rightarrow>
         (case attr_get snap ''weather'' (JStr ''clear'') of Inl e \<Rightarrow> Inl e | Inr w \<Rightarrow>
            Inr (json_dumps lib (fallback_doc lib (pressure_of dem drv) invt (py_str lib w)))))))"

definition remember :: "reasoning_agent \<Rightarrow> string \<Rightarrow> string \<Rightarrow> string \<Rightarrow> int option \<Rightarrow> reasoning_agent" where
  \<comment> \<open>The write both \<open>reason\<close> and \<open>ingest_feedback\<close> end with: the dict entry, or the upsert.\<close>
  "remember a key text eid rating =
     (case collection a of
        None \<Rightarrow> a\<lparr>memory_store := (memory_store a)(key \<mapsto> text)\<rparr>
      | Some c \<Rightarrow>
          a\<lparr>collection :=
               Some (c(key \<mapsto> \<lparr>doc_text = text, meta_event_id = eid, meta_rating = rating\<rparr>))\<rparr>)"

definition reason ::
  "pylib \<Rightarrow> store_query \<Rightarrow> ollama \<Rightarrow> reasoning_agent \<Rightarrow> (string \<times> json) list
     \<Rightarrow> error + (reasoning_agent \<times> reason_payload)" where
  "reason lib query call_ollama a event =
     (let eid = py_str lib (dict_get event ''event_id'' (JStr ''unknown-event''));
          context = query_context query a eid 3;
          p = build_prompt lib event context
      in case (case call_ollama (llm_model a) p of
                 Some text \<Rightarrow> Inr text
               | None \<Rightarrow> fallback_explanation lib event) of
           Inl e \<Rightarrow> Inl e
         | Inr expl \<Rightarrow>
             Inr (remember a eid (''event_id='' @ eid @ ''; explanation='' @ expl) eid None,
                  \<lparr>rp_event_id = eid, prompt = p, explanation = expl\<rparr>))"

definition feedback_id :: "string \<Rightarrow> int \<Rightarrow> string" where
  "feedback_id eid rating = ''feedback:'' @ eid @ '':'' @ show_int rating"

definition ingest_feedback ::
  "reasoning_agent \<Rightarrow> string \<Rightarrow> string \<Rightarrow> int \<Rightarrow> reasoning_agent" where
  "ingest_feedback a eid correction rating =
     remember a (feedback_id eid rating)
       (''feedback for '' @ eid @ '': rating='' @ show_int rating
          @ ''; correction='' @ correction)
       eid (Some rating)"

definition entry :: "reasoning_agent \<Rightarrow> string \<Rightarrow> string option" where
  \<comment> \<open>The text stored under a key, in whichever store the agent writes to.\<close>
  "entry a key =
     (case collection a of
        None \<Rightarrow> memory_store a key
      | Some c \<Rightarrow> map_option doc_text (c key))"

subsection \<open>Action agent\<close>

record action =
  action_name :: string
  detail :: string
  priority :: string

record action_plan =
  ap_event_id :: json
  recommended_actions :: "action list"
  reasoning_reference :: json

definition plan :: "pylib \<Rightarrow> (string \<times> json) list \<Rightarrow> json \<Rightarrow> error + action_plan" where
  "plan lib event expl =
     (let snap = dict_get event ''snapshot'' (JObj [])
      in case get_float lib snap ''demand'' 0 of Inl e \<Rightarrow> Inl e | Inr dem \<Rightarrow>
         (case get_float lib snap ''drivers'' 0 of Inl e \<Rightarrow> Inl e | Inr drv \<Rightarrow>
         (case get_float lib snap ''inventory'' 0 of Inl e \<Rightarrow> Inl e | Inr invt \<Rightarrow>
            Inr \<lparr>ap_event_id = dict_get event ''event_id'' (JStr ''unknown-event''),
                 recommended_actions =
                   (if drv < dem * (9 / 10)
                    then [\<lparr>action_name = ''Rebalance drivers'',
                            detail = ''Shift drivers from neighboring zones within next 30 minutes.'',
                            priority = ''high''\<rparr>]
                    else [])
                   @ (if invt < dem * (8 / 10)
                      then [\<lparr>action_name = ''Expedite inventory transfer'',
                              detail = ''Move hot-selling inventory from closest micro-fulfillment center.'',
                              priority = ''high''\<rparr>]
                      else [])
                   @ [\<lparr>action_name = ''Enable surge controls'',
                        detail = ''Temporarily throttle low-priority orders and adjust promised ETA windows.'',
                        priority = ''medium''\<rparr>,
                      \<lparr>action_name = ''Monitor zone stability'',
                        detail = ''Track availability every 15 minutes for the next 2 hours.'',
                        priority = ''medium''\<rparr>],
                 reasoning_reference = expl\<rparr>)))"

subsection \<open>Pipeline orchestrator\<close>

record step_trace =
  step :: string
  status :: string
  latency_ms :: real
  details :: "(string \<times> json) list"

record pipeline_output =
  po_zone_id :: string
  generated_at :: string
  traces :: "step_trace list"
  forecast :: forecast_result
  anomalies :: anomaly_result
  reasoning :: "reason_payload option"
  actions :: "action_plan option"

text \<open>
  What a run is given from outside: the library functions, the explanation service, the
  readings of \<open>perf_counter\<close> (the \<open>k\<close>-th call of a run returns \<open>perf_counter k\<close>) and the
  rendered current time.
\<close>

record env =
  env_lib :: pylib
  env_fit :: fitter
  env_forest :: forest_fitter
  env_query :: store_query
  env_ollama :: ollama
  perf_counter :: "nat \<Rightarrow> real"
  utc_now :: string

text \<open>
  The orchestrator owns the forecaster's models, the anomaly agent's contamination and
  the reasoning agent; the action agent has no state.
\<close>

record orchestrator =
  forecaster :: models
  anomaly_contamination :: real
  reasoner :: reasoning_agent

text \<open>The agent methods a run calls, in the order it calls them.\<close>

datatype agent_call =
  CallTrain | CallPredict | CallDetect
| CallReason "(string \<times> json) list" | CallPlan "(string \<times> json) list"

definition ok_trace :: "string \<Rightarrow> real \<Rightarrow> real \<Rightarrow> (string \<times> json) list \<Rightarrow> step_trace" where
  "ok_trace name start stop d =
     \<lparr>step = name, status = ''ok'', latency_ms = (stop - start) * 1000, details = d\<rparr>"

definition skipped_trace :: "string \<Rightarrow> step_trace" where
  "skipped_trace name =
     \<lparr>step = name, status = ''skipped'', latency_ms = 0,
      details = [(''reason'', JStr ''No anomaly events'')]\<rparr>"

text \<open>
  \<open>run\<close>. The two coroutines given to \<open>gather\<close> never await, so the forecast stage runs
  to its end before the anomaly stage starts, and both run even when the first raises;
  \<open>gather\<close> then raises the first exception. The result is the orchestrator after the run,
  the agent calls made, and the output or the exception.
\<close>

definition run ::
  "env \<Rightarrow> orchestrator \<Rightarrow> observation list \<Rightarrow> string \<Rightarrow> int \<Rightarrow> int
     \<Rightarrow> orchestrator \<times> agent_call list \<times> (error + pipeline_output)" where
  "run e orch df z h lookback =
     (let ms = train (env_fit e) df (forecaster orch);
          orch1 = orch\<lparr>forecaster := ms\<rparr>;
          fc = predict (env_lib e) ms df z h;
          an = detect (env_lib e) (env_forest e) (anomaly_contamination orch) df z lookback;
          calls = [CallTrain, CallPredict, CallDetect]
      in case fc of
           Inl err \<Rightarrow> (orch1, calls, Inl err)
         | Inr fr \<Rightarrow>
        (case an of
           Inl err \<Rightarrow> (orch1, calls, Inl err)
         | Inr ar \<Rightarrow>
        (let t_forecast = ok_trace ''forecast'' (perf_counter e 0) (perf_counter e 1)
                            [(''count'', JNum (real (length (predictions fr))))];
             t_anomaly = ok_trace ''anomaly'' (perf_counter e 2) (perf_counter e 3)
                            [(''events'', JNum (real (length (events ar))))]
         in case events ar of
              [] \<Rightarrow>
                (orch1, calls,
                 Inr \<lparr>po_zone_id = z, generated_at = utc_now e,
                      traces = [t_forecast, t_anomaly,
                                skipped_trace ''reason'', skipped_trace ''action''],
                      forecast = fr, anomalies = ar, reasoning = None, actions = None\<rparr>)
            | ev # rest \<Rightarrow>
           (let event = event_dict ev
            in case reason (env_lib e) (env_query e) (env_ollama e) (reasoner orch1) event of
                 Inl err \<Rightarrow> (orch1, calls @ [CallReason event], Inl err)
               | Inr (ra, rp) \<Rightarrow>
              (let orch2 = orch1\<lparr>reasoner := ra\<rparr>;
                   t_reason = ok_trace ''reason'' (perf_counter e 4) (perf_counter e 5)
                                [(''event_id'', JStr (rp_event_id rp))];
                   calls2 = calls @ [CallReason event, CallPlan event]
               in case plan (env_lib e) event (JStr (explanation rp)) of
                    Inl err \<Rightarrow> (orch2, calls2, Inl err)
                  | Inr ap \<Rightarrow>
                      (orch2, calls2,
                       Inr \<lparr>po_zone_id = z, generated_at = utc_now e,
                            traces = [t_forecast, t_anomaly, t_reason,
                                      ok_trace ''action'' (perf_counter e 6) (perf_counter e 7)
                                        [(''actions'',
                                          JNum (real (length (recommended_actions ap))))]],
                            forecast = fr, anomalies = ar,
                            reasoning = Some rp, actions = Some ap\<rparr>))))))"

subsection \<open>Evaluation metrics\<close>

text \<open>
  The arrays are lists; an operation on two arrays broadcasts an array of length one and
  raises on any other mismatch of lengths. The mean of an empty array is NaN, here \<open>None\<close>.
\<close>

definition broadcast2 ::
  "(real \<Rightarrow> real \<Rightarrow> real) \<Rightarrow> real list \<Rightarrow> real list \<Rightarrow> error + real list" where
  "broadcast2 f xs ys =
     (if length xs = length ys then Inr (map2 f xs ys)
      else if length xs = 1 then Inr (map (f (hd xs)) ys)
      else if length ys = 1 then Inr (map (\<lambda>x. f x (hd ys)) xs)
      else Inl (ValueError ''operands could not be broadcast together''))"

definition np_mean :: "real list \<Rightarrow> real option" where
  "np_mean xs = (if xs = [] then None else Some (mean xs))"

definition mape :: "real list \<Rightarrow> real list \<Rightarrow> error + real option" where
  "mape y_true y_pred =
     (let denom = map (\<lambda>t. max \<bar>t\<bar> (1 / 10 ^ 6)) y_true
      in case broadcast2 (-) y_true y_pred of
           Inl err \<Rightarrow> Inl err
         | Inr diff \<Rightarrow>
             (case broadcast2 (/) diff denom of
                Inl err \<Rightarrow> Inl err
              | Inr q \<Rightarrow> Inr (np_mean (map abs q))))"

definition rmse :: "real list \<Rightarrow> real list \<Rightarrow> error + real option" where
  "rmse y_true y_pred =
     (case broadcast2 (-) y_true y_pred of
        Inl err \<Rightarrow> Inl err
      | Inr diff \<Rightarrow> Inr (map_option sqrt (np_mean (map (\<lambda>d. d ^ 2) diff))))"

subsection \<open>Business impact\<close>

record business_impact =
  incident_prevention_rate :: real
  estimated_mttr_reduction_minutes :: real
  action_acceptance_rate :: real
  estimated_ops_hours_saved :: real

definition estimate_impact ::
  "pylib \<Rightarrow> int \<Rightarrow> int \<Rightarrow> int \<Rightarrow> int \<Rightarrow> business_impact" where
  "estimate_impact lib anomalies_detected corrective_actions acknowledged_actions
       baseline_incidents =
     (let baseline = (if baseline_incidents \<le> 0 then 1 else baseline_incidents);
          rate = min 1 (real_of_int anomalies_detected / real_of_int baseline);
          acceptance = (if corrective_actions = 0 then 0
                        else min 1 (real_of_int acknowledged_actions
                                      / real_of_int corrective_actions))
      in \<lparr>incident_prevention_rate = py_round lib rate 4,
          estimated_mttr_reduction_minutes = py_round lib (12 + 38 * acceptance) 2,
          action_acceptance_rate = py_round lib acceptance 4,
          estimated_ops_hours_saved =
            py_round lib (real_of_int anomalies_detected * (35 / 100)
                        + real_of_int acknowledged_actions * (22 / 100)) 2\<rparr>)"

subsection \<open>Auxiliary definitions and example data\<close>

text \<open>
  The feature row built for the observation at position \<open>k + 1\<close> of the ordered frame:
  its lag is the availability at position \<open>k\<close>, its rolling value the mean of the up to
  three availabilities that end at position \<open>k\<close>.
\<close>

definition feature_at :: "observation list \<Rightarrow> nat \<Rightarrow> real feature_row" where
  "feature_at ordered k =
     with_features (ordered ! Suc k) (availability (ordered ! k))
       (mean (drop (Suc k - 3) (take (Suc k) (map availability ordered))))"

text \<open>The prediction emitted by iteration \<open>k\<close> of the forecast loop started in \<open>s\<close>.\<close>

definition emitted :: "pylib \<Rightarrow> model \<Rightarrow> loop_state \<Rightarrow> nat \<Rightarrow> prediction" where
  "emitted lib m s k =
     \<lparr>pred_timestamp = isoformat lib (current_ts s + hour_ns * (int k + 1)),
      predicted_availability = py_round lib (step_yhat m ((loop_body lib m ^^ k) s)) 4\<rparr>"

definition demo_obs :: "nat \<Rightarrow> observation" where
  "demo_obs i =
     \<lparr>zone_id = ''zone_01'', timestamp = hour_ns * int i, demand = 80 + real i, drivers = 60,
      inventory = 70, weather = (if even i then ''clear'' else ''rain''),
      availability = (if even i then 8 / 10 else 7 / 10)\<rparr>"

definition demo_rows :: "observation list" where
  "demo_rows = [demo_obs 2, demo_obs 0, demo_obs 1]"

definition demo_history :: "observation list" where
  "demo_history = map demo_obs [0..<40]"

text \<open>
  Sample collaborators, to run the definitions on concrete inputs: renderings that print
  the integer part of a number, rounding that goes to the even neighbour when halfway,
  a regressor that predicts the mean of its targets, a forest that flags the rows whose
  availability is below the given level and scores a row by its demand, a store that
  finds nothing and an explanation service that is down.
\<close>

definition demo_lib :: pylib where
  "demo_lib =
     \<lparr>num_repr = (\<lambda>r. show_int \<lfloor>r\<rfloor>), str_escape = (\<lambda>s. s),
      fmt2f = (\<lambda>r. show_int \<lfloor>r\<rfloor>), str_value = (\<lambda>v. ''None''),
      float_of_str = (\<lambda>s. None), isoformat = show_int,
      round_tie_up = (\<lambda>x n. odd \<lfloor>x * 10 ^ n\<rfloor>)\<rparr>"

definition demo_fit :: fitter where
  "demo_fit X y = (\<lambda>x. mean y)"

definition demo_forest :: "real \<Rightarrow> forest_fitter" where
  "demo_forest level c X =
     \<lparr>if_predict = (\<lambda>x. if x ! 3 < level then - 1 else 1),
      score_samples = (\<lambda>x. - (x ! 0) / 1000)\<rparr>"

definition demo_env :: "real \<Rightarrow> env" where
  "demo_env level =
     \<lparr>env_lib = demo_lib, env_fit = demo_fit, env_forest = demo_forest level,
      env_query = (\<lambda>c k n. []), env_ollama = (\<lambda>m p. None),
      perf_counter = (\<lambda>k. real k / 100), utc_now = ''2026-01-01T00:00:00+00:00''\<rparr>"

definition overshoot :: model where
  \<comment> \<open>A regressor whose output is the lag feature plus one half.\<close>
  "overshoot x = x ! 6 + 1 / 2"

definition demo_state :: loop_state where
  \<comment> \<open>The loop state \<open>predict\<close> starts from on \<open>demo_history\<close>.\<close>
  "demo_state =
     \<lparr>current_ts = hour_ns * 39,
      current_row = with_features (demo_obs 39) (8 / 10) (23 / 30), preds = []\<rparr>"

definition demo_agent :: reasoning_agent where
  "demo_agent = \<lparr>llm_model = ''llama3.1'', memory_store = Map.empty, collection = None\<rparr>"



definition demo_orchestrator :: orchestrator where
  "demo_orchestrator =
     \<lparr>forecaster = Map.empty, anomaly_contamination = 7 / 100, reasoner = demo_agent\<rparr>"

section \<open>Properties\<close>

subsection \<open>Rounding\<close>

lemma py_round_num:
  "\<exists>k. py_round lib x n = real_of_int k / 10 ^ n
       \<and> \<bar>real_of_int k - x * 10 ^ n\<bar> \<le> 1 / 2
       \<and> \<lfloor>x * 10 ^ n\<rfloor> \<le> k
       \<and> (k = \<lfloor>x * 10 ^ n\<rfloor> \<or> k = \<lfloor>x * 10 ^ n\<rfloor> + 1 \<and> x * 10 ^ n \<noteq> real_of_int \<lfloor>x * 10 ^ n\<rfloor>)"
proof -
  define y where "y = x * 10 ^ n"
  define k where "k = (if y - of_int \<lfloor>y\<rfloor> < 1 / 2 then \<lfloor>y\<rfloor>
                       else if 1 / 2 < y - of_int \<lfloor>y\<rfloor> then \<lfloor>y\<rfloor> + 1
                       else if round_tie_up lib x n then \<lfloor>y\<rfloor> + 1 else \<lfloor>y\<rfloor>)"
  have r: "py_round lib x n = real_of_int k / 10 ^ n"
    by (simp add: py_round_def Let_def k_def y_def)
  have f: "real_of_int \<lfloor>y\<rfloor> \<le> y" "y < real_of_int \<lfloor>y\<rfloor> + 1"
    by linarith+
  have b: "\<bar>real_of_int k - y\<bar> \<le> 1 / 2"
    unfolding k_def using f by (auto; linarith)
  have l: "\<lfloor>y\<rfloor> \<le> k"
    unfolding k_def by simp
  have c: "k = \<lfloor>y\<rfloor> \<or> k = \<lfloor>y\<rfloor> + 1 \<and> y \<noteq> real_of_int \<lfloor>y\<rfloor>"
    unfolding k_def by auto
  show ?thesis
    using r b l c unfolding y_def by blast
qed

lemma py_round_err: "\<bar>py_round lib x n - x\<bar> \<le> 1 / (2 * 10 ^ n)"
proof -
  obtain k where r: "py_round lib x n = real_of_int k / 10 ^ n"
    and b: "\<bar>real_of_int k - x * 10 ^ n\<bar> \<le> 1 / 2"
    using py_round_num by blast
  have p: "(0::real) < 10 ^ n" by simp
  have "py_round lib x n - x = (real_of_int k - x * 10 ^ n) / 10 ^ n"
    using p by (simp add: r diff_divide_distrib)
  then have "\<bar>py_round lib x n - x\<bar> = \<bar>real_of_int k - x * 10 ^ n\<bar> / 10 ^ n"
    by simp
  also have "\<dots> \<le> (1 / 2) / 10 ^ n"
    using b p by (rule_tac divide_right_mono) simp_all
  finally show ?thesis by simp
qed

lemma py_round_exact: "py_round lib (real_of_int k / 10 ^ n) n = real_of_int k / 10 ^ n"
  by (simp add: py_round_def)

lemma py_round_unit:
  assumes "0 \<le> x" "x \<le> 1"
  shows "0 \<le> py_round lib x n" "py_round lib x n \<le> 1"
proof -
  obtain k where r: "py_round lib x n = real_of_int k / 10 ^ n"
    and l: "\<lfloor>x * 10 ^ n\<rfloor> \<le> k"
    and c: "k = \<lfloor>x * 10 ^ n\<rfloor> \<or> k = \<lfloor>x * 10 ^ n\<rfloor> + 1 \<and> x * 10 ^ n \<noteq> real_of_int \<lfloor>x * 10 ^ n\<rfloor>"
    using py_round_num by blast
  have a: "0 \<le> x * 10 ^ n" using assms by simp
  have b: "x * 10 ^ n \<le> real_of_int (10 ^ n)"
    using assms by (simp add: mult_left_le_one_le)
  have f0: "0 \<le> \<lfloor>x * 10 ^ n\<rfloor>" using a by simp
  have "x * 10 ^ n \<le> 10 ^ n"
    using assms by (simp add: mult_left_le_one_le)
  then have "\<lfloor>x * 10 ^ n\<rfloor> \<le> \<lfloor>(10::real) ^ n\<rfloor>"
    by (rule floor_mono)
  then have fN: "\<lfloor>x * 10 ^ n\<rfloor> \<le> 10 ^ n" by simp
  have "x * 10 ^ n \<noteq> real_of_int \<lfloor>x * 10 ^ n\<rfloor> \<Longrightarrow> \<lfloor>x * 10 ^ n\<rfloor> \<noteq> 10 ^ n"
  proof
    assume ne: "x * 10 ^ n \<noteq> real_of_int \<lfloor>x * 10 ^ n\<rfloor>" and eq: "\<lfloor>x * 10 ^ n\<rfloor> = 10 ^ n"
    have "real_of_int \<lfloor>x * 10 ^ n\<rfloor> \<le> x * 10 ^ n" by simp
    with b eq have "x * 10 ^ n = real_of_int \<lfloor>x * 10 ^ n\<rfloor>" by simp
    with ne show False by simp
  qed
  with c fN have kN: "k \<le> 10 ^ n" by auto
  have k0: "0 \<le> k" using f0 l by (rule order_trans)
  from k0 kN have "0 \<le> real_of_int k" "real_of_int k \<le> 10 ^ n"
    by (simp, metis of_int_le_iff of_int_numeral of_int_power)
  then show "0 \<le> py_round lib x n" "py_round lib x n \<le> 1"
    unfolding r by simp_all
qed

subsection \<open>The forecast loop\<close>

lemma clip_unit: "0 \<le> clip x 0 1" "clip x 0 1 \<le> 1"
  by (simp_all add: clip_def)

lemma hour_ns_pos: "0 < hour_ns"
  by (simp add: hour_ns_def)

lemma loop_body_sel:
  "current_ts (loop_body lib m s) = current_ts s + hour_ns"
  "preds (loop_body lib m s)
     = preds s @ [\<lparr>pred_timestamp = isoformat lib (current_ts s + hour_ns),
                    predicted_availability = py_round lib (step_yhat m s) 4\<rparr>]"
  "availability_lag_1 (current_row (loop_body lib m s)) = step_yhat m s"
  "availability_roll_3 (current_row (loop_body lib m s))
     = (availability_roll_3 (current_row s) * 2 + step_yhat m s) / 3"
  by (simp_all add: loop_body_def Let_def step_input_def)

lemma current_ts_funpow:
  "current_ts ((loop_body lib m ^^ n) s) = current_ts s + hour_ns * int n"
  by (induction n) (simp_all add: loop_body_sel algebra_simps)

lemma preds_funpow:
  "preds ((loop_body lib m ^^ n) s) = preds s @ map (emitted lib m s) [0..<n]"
proof (induction n)
  case 0
  show ?case by simp
next
  case (Suc n)
  have "current_ts s + hour_ns * int n + hour_ns = current_ts s + hour_ns * (int n + 1)"
    by (simp add: algebra_simps)
  then show ?case
    by (simp add: loop_body_sel Suc current_ts_funpow emitted_def add.assoc)
qed

lemma predict_loop_ok:
  "current_ts s + hour_ns * int n \<le> timestamp_max
   \<Longrightarrow> predict_loop lib m n s = Inr ((loop_body lib m ^^ n) s)"
proof (induction n arbitrary: s)
  case 0
  show ?case by simp
next
  case (Suc n)
  have a: "current_ts s + hour_ns * int (Suc n) = current_ts s + hour_ns + hour_ns * int n"
    by (simp add: algebra_simps)
  have "0 \<le> hour_ns * int n" using hour_ns_pos by simp
  with Suc.prems a have ok: "\<not> timestamp_max < current_ts s + hour_ns" by linarith
  have "current_ts (loop_body lib m s) + hour_ns * int n \<le> timestamp_max"
    using Suc.prems a by (simp add: loop_body_sel)
  from Suc.IH[OF this] ok show ?case
    by (simp add: predict_step_def funpow_swap1)
qed

lemma predict_loop_overflow:
  "current_ts s \<le> timestamp_max \<Longrightarrow> timestamp_max < current_ts s + hour_ns * int n
   \<Longrightarrow> predict_loop lib m n s = Inl OutOfBoundsDatetime"
proof (induction n arbitrary: s)
  case 0
  then show ?case by simp
next
  case (Suc n)
  show ?case
  proof (cases "timestamp_max < current_ts s + hour_ns")
    case True
    then show ?thesis by (simp add: predict_step_def)
  next
    case False
    have a: "current_ts s + hour_ns * int (Suc n) = current_ts s + hour_ns + hour_ns * int n"
      by (simp add: algebra_simps)
    have "current_ts (loop_body lib m s) \<le> timestamp_max"
      using False by (simp add: loop_body_sel)
    moreover have "timestamp_max < current_ts (loop_body lib m s) + hour_ns * int n"
      using Suc.prems(2) a by (simp add: loop_body_sel)
    ultimately have "predict_loop lib m n (loop_body lib m s) = Inl OutOfBoundsDatetime"
      by (rule Suc.IH)
    with False show ?thesis by (simp add: predict_step_def)
  qed
qed

lemma predict_loop_Suc_end:
  "predict_loop lib m k s0 = Inr s \<Longrightarrow> predict_loop lib m (Suc k) s0 = predict_step lib m s"
proof (induction k arbitrary: s0)
  case 0
  then show ?case by (simp split: sum.splits)
next
  case (Suc k)
  then show ?case by (cases "predict_step lib m s0") simp_all
qed

text \<open>
  Claim C5. In every iteration of the forecast loop the raw output of the model, computed
  on the row kept from the iteration before with the clock fields of the new timestamp,
  is clamped to \<open>[0, 1]\<close>, that is \<open>min (max raw 0) 1\<close>; the clamped value is what is rounded
  and emitted, it is the lag of the row kept for the next iteration, and the rolling value
  of that row is the old rolling value times two plus the clamped value, divided by
  three. The other features of the row stay as they were.
\<close>

theorem predict_loop_feedback:
  assumes "predict_loop lib m k s0 = Inr s" and "predict_loop lib m (Suc k) s0 = Inr s'"
  shows "(let raw = m [real_of_int (ts_hour (current_ts s + 3600000000000)),
                       real_of_int (ts_dayofweek (current_ts s + 3600000000000)),
                       demand (current_row s), drivers (current_row s),
                       inventory (current_row s), weather_idx (current_row s),
                       availability_lag_1 (current_row s),
                       availability_roll_3 (current_row s)];
              yhat = min (max raw 0) 1
          in availability_lag_1 (current_row s') = yhat
             \<and> availability_roll_3 (current_row s')
                  = (availability_roll_3 (current_row s) * 2 + yhat) / 3
             \<and> preds s' = preds s @ [\<lparr>pred_timestamp = isoformat lib (current_ts s + 3600000000000),
                                         predicted_availability = py_round lib yhat 4\<rparr>]
             \<and> current_ts s' = current_ts s + 3600000000000
             \<and> demand (current_row s') = demand (current_row s)
             \<and> drivers (current_row s') = drivers (current_row s)
             \<and> inventory (current_row s') = inventory (current_row s)
             \<and> weather_idx (current_row s') = weather_idx (current_row s))"
proof -
  have y: "step_yhat m s
      = min (max (m [real_of_int (ts_hour (current_ts s + 3600000000000)),
                       real_of_int (ts_dayofweek (current_ts s + 3600000000000)),
                       demand (current_row s), drivers (current_row s),
                       inventory (current_row s), weather_idx (current_row s),
                       availability_lag_1 (current_row s),
                       availability_roll_3 (current_row s)]) 0) 1"
    by (simp add: step_yhat_def clip_def feature_cols_def step_input_def hour_ns_def)
  have "predict_step lib m s = predict_loop lib m (Suc k) s0"
    by (rule predict_loop_Suc_end[OF assms(1), symmetric])
  also have "\<dots> = Inr s'"
    by (rule assms(2))
  finally have "predict_step lib m s = Inr s'" .
  then have s': "s' = loop_body lib m s"
    by (simp add: predict_step_def split: if_splits)
  show ?thesis
    unfolding Let_def s' y[symmetric]
    by (simp add: loop_body_def Let_def step_input_def hour_ns_def)
qed

theorem predict_loop_feedback_witness:
  "predict_loop demo_lib overshoot 0 demo_state = Inr demo_state
   \<and> predict_loop demo_lib overshoot (Suc 0) demo_state
       = Inr (loop_body demo_lib overshoot demo_state)
   \<and> availability_lag_1 (current_row (loop_body demo_lib overshoot demo_state)) = 1
   \<and> availability_roll_3 (current_row (loop_body demo_lib overshoot demo_state)) = 38 / 45"
proof -
  have h1: "predict_loop demo_lib overshoot 0 demo_state = Inr demo_state"
    by simp
  have h2: "predict_loop demo_lib overshoot (Suc 0) demo_state
       = Inr (loop_body demo_lib overshoot demo_state)"
    by (simp add: predict_step_def demo_state_def hour_ns_def timestamp_max_def)
  have l: "availability_lag_1 (current_row demo_state) = 8 / 10"
    and r: "availability_roll_3 (current_row demo_state) = 23 / 30"
    by (simp_all add: demo_state_def with_features_def observation.extend_def
          feature_row.fields_def)
  from predict_loop_feedback [OF h1 h2] l r
  have "availability_lag_1 (current_row (loop_body demo_lib overshoot demo_state)) = 1
   \<and> availability_roll_3 (current_row (loop_body demo_lib overshoot demo_state)) = 38 / 45"
    by (simp add: Let_def overshoot_def)
  with h1 h2 show ?thesis by blast
qed

subsection \<open>Feature construction\<close>

lemma length_shift1: "length (shift1 xs) = length xs"
  by (simp add: shift1_def)

lemma length_rolling_mean: "length (rolling_mean w p xs) = length xs"
  by (simp add: rolling_mean_def)

lemma rolling_mean_nth:
  "i < length xs \<Longrightarrow> rolling_mean 3 (Suc 0) xs ! i = Some (mean (drop (Suc i - 3) (take (Suc i) xs)))"
  by (simp add: rolling_mean_def Let_def)

lemma shift1_nth:
  "i < length xs \<Longrightarrow> shift1 xs ! i = (case i of 0 \<Rightarrow> None | Suc j \<Rightarrow> xs ! j)"
  by (cases i) (auto simp: shift1_def nth_butlast)

lemma obs_of_with_features: "obs_of (with_features r l ro) = r"
  by (simp add: obs_of_def with_features_def observation.truncate_def observation.extend_def)

lemma with_features_sel:
  "availability_lag_1 (with_features r l ro) = l"
  "availability_roll_3 (with_features r l ro) = ro"
  "hour (with_features r l ro) = real_of_int (ts_hour (timestamp r))"
  "dayofweek (with_features r l ro) = real_of_int (ts_dayofweek (timestamp r))"
  "weather_idx (with_features r l ro) = encode_weather (weather r)"
  "timestamp (with_features r l ro) = timestamp r"
  "availability (with_features r l ro) = availability r"
  "zone_id (with_features r l ro) = zone_id r"
  by (simp_all add: with_features_def observation.extend_def feature_row.fields_def)

lemma dropna_row_with_features:
  "dropna_row (with_features r l ro) =
     (case (l, ro) of (Some a, Some b) \<Rightarrow> Some (with_features r a b) | _ \<Rightarrow> None)"
  by (simp add: dropna_row_def with_features_def observation.extend_def
        feature_row.fields_def split: option.splits)

lemma frame_rows:
  "map (\<lambda>(r, l, ro). with_features r l ro)
     (zip ordered (zip (shift1 (map Some (map availability ordered)))
                       (shift1 (rolling_mean 3 1 (map availability ordered)))))
   = map (\<lambda>i. with_features (ordered ! i)
             (case i of 0 \<Rightarrow> None | Suc j \<Rightarrow> Some (availability (ordered ! j)))
             (case i of 0 \<Rightarrow> None | Suc j \<Rightarrow>
                Some (mean (drop (Suc j - 3) (take (Suc j) (map availability ordered))))))
       [0..<length ordered]"
  by (rule nth_equalityI)
     (auto simp: length_shift1 length_rolling_mean shift1_nth rolling_mean_nth split: nat.splits)

lemma dropna_frame:
  "dropna (map (\<lambda>i. with_features (ordered ! i)
             (case i of 0 \<Rightarrow> None | Suc j \<Rightarrow> Some (availability (ordered ! j)))
             (case i of 0 \<Rightarrow> None | Suc j \<Rightarrow>
                Some (mean (drop (Suc j - 3) (take (Suc j) (map availability ordered))))))
       [0..<n])
   = map (feature_at ordered) [0..<n - 1]"
proof (induction n)
  case 0
  then show ?case by (simp add: dropna_def List.map_filter_simps)
next
  case (Suc n)
  then show ?case
    by (cases n) (auto simp: dropna_def List.map_filter_def dropna_row_with_features feature_at_def)
qed

lemma build_features_eq:
  "build_features df = map (feature_at (sort_key timestamp df)) [0..<length df - 1]"
  unfolding build_features_def Let_def frame_rows dropna_frame by simp

lemma length_build_features: "length (build_features df) = length df - 1"
  by (simp add: build_features_eq)

lemma obs_of_feature_at: "obs_of (feature_at ordered k) = ordered ! Suc k"
  by (simp add: feature_at_def obs_of_with_features)

lemma obs_of_build_features: "map obs_of (build_features df) = tl (sort_key timestamp df)"
  by (rule nth_equalityI) (simp_all add: build_features_eq obs_of_feature_at nth_tl)

lemma roll_build_features:
  "k < length df - 1 \<Longrightarrow>
   availability_roll_3 (build_features df ! k)
     = mean (drop (Suc k - 3) (take (Suc k) (map availability (sort_key timestamp df))))"
  by (simp add: build_features_eq feature_at_def with_features_sel)

lemma lag_build_features:
  "k < length df - 1 \<Longrightarrow>
   availability_lag_1 (build_features df ! k) = availability (sort_key timestamp df ! k)"
  by (simp add: build_features_eq feature_at_def with_features_sel)

lemma take1_map: "1 \<le> length xs \<Longrightarrow> take (Suc 0) (map f xs) = [f (xs ! 0)]"
  by (cases xs) auto

lemma take2_map: "2 \<le> length xs \<Longrightarrow> take (Suc (Suc 0)) (map f xs) = [f (xs ! 0), f (xs ! 1)]"
  by (cases xs; cases "tl xs") auto

lemma train_zones_lookup:
  "train_zones fit df zs ms z =
     (if z \<in> set zs \<and> 30 \<le> length (build_features (zone_frame df z))
      then Some (fit (map feature_cols (build_features (zone_frame df z)))
                     (map availability (build_features (zone_frame df z))))
      else ms z)"
  by (induction zs arbitrary: ms) (auto simp: Let_def)

lemma groupby_keys_set: "z \<in> set (groupby_keys df) \<longleftrightarrow> zone_frame df z \<noteq> []"
  by (auto simp: groupby_keys_def zone_frame_def filter_empty_conv)

lemma train_lookup:
  "train fit df ms z =
     (if 31 \<le> length (zone_frame df z)
      then Some (fit (map feature_cols (build_features (zone_frame df z)))
                     (map availability (build_features (zone_frame df z))))
      else ms z)"
proof -
  have "30 \<le> length (build_features (zone_frame df z)) \<longleftrightarrow> 31 \<le> length (zone_frame df z)"
    by (simp add: length_build_features) arith
  moreover have "31 \<le> length (zone_frame df z) \<Longrightarrow> z \<in> set (groupby_keys df)"
    by (auto simp: groupby_keys_set)
  ultimately show ?thesis
    unfolding train_def train_zones_lookup by auto
qed

text \<open>
  Claim C10. Feature construction drops exactly one row of a zone, the first observation
  in time order (its lag is undefined; the rolling column is defined from one prior
  period on). So the number of feature rows is the number of observations minus one,
  training from an empty agent fits a zone if and only if it has at least 31
  observations, and the rolling value of the second observation is the mean of one
  sample, that of the third the mean of two.
\<close>

theorem build_features_drops_first_row:
  "length (build_features df) = length df - 1
   \<and> map obs_of (build_features df) = tl (sort_key timestamp df)
   \<and> (train fit df Map.empty z \<noteq> None \<longleftrightarrow> 31 \<le> length (zone_frame df z))
   \<and> (2 \<le> length df \<longrightarrow>
        availability_roll_3 (build_features df ! 0)
          = mean [availability (sort_key timestamp df ! 0)])
   \<and> (3 \<le> length df \<longrightarrow>
        availability_roll_3 (build_features df ! 1)
          = mean [availability (sort_key timestamp df ! 0),
                  availability (sort_key timestamp df ! 1)])"
proof (intro conjI impI)
  show "length (build_features df) = length df - 1"
    by (rule length_build_features)
  show "map obs_of (build_features df) = tl (sort_key timestamp df)"
    by (rule obs_of_build_features)
  show "train fit df Map.empty z \<noteq> None \<longleftrightarrow> 31 \<le> length (zone_frame df z)"
    by (simp add: train_lookup)
next
  assume a: "2 \<le> length df"
  then have "take (Suc 0) (map availability (sort_key timestamp df))
      = [availability (sort_key timestamp df ! 0)]"
    by (intro take1_map) simp
  with a show "availability_roll_3 (build_features df ! 0)
          = mean [availability (sort_key timestamp df ! 0)]"
    by (simp add: roll_build_features)
next
  assume a: "3 \<le> length df"
  then have "take (Suc (Suc 0)) (map availability (sort_key timestamp df))
      = [availability (sort_key timestamp df ! 0), availability (sort_key timestamp df ! 1)]"
    by (intro take2_map) simp
  with a show "availability_roll_3 (build_features df ! 1)
          = mean [availability (sort_key timestamp df ! 0),
                  availability (sort_key timestamp df ! 1)]"
    by (simp add: roll_build_features numeral_2_eq_2)
qed

theorem build_features_drops_first_row_witness:
  "2 \<le> length demo_rows \<and> 3 \<le> length demo_rows
   \<and> length (build_features demo_rows) = 2
   \<and> availability_roll_3 (build_features demo_rows ! 0) = 8 / 10
   \<and> availability_roll_3 (build_features demo_rows ! 1) = 3 / 4"
  using build_features_drops_first_row [of demo_rows]
  by (simp add: demo_rows_def demo_obs_def mean_def hour_ns_def)


subsection \<open>Training and prediction\<close>

lemma timestamp_obs_of: "timestamp (obs_of r) = timestamp r"
  by (simp add: obs_of_def observation.truncate_def)

lemma sort_key_twice: "sort_key f (sort_key f xs) = sort_key f xs"
  by (simp add: sort_key_id_if_sorted)

lemma length_features_sorted:
  "length (build_features (sort_key timestamp xs)) = length (build_features xs)"
  by (simp add: length_build_features)

lemma last_build_features_timestamp:
  assumes "build_features xs \<noteq> []"
  shows "timestamp (last (build_features xs)) = timestamp (last (sort_key timestamp xs))"
proof -
  have ne: "tl (sort_key timestamp xs) \<noteq> []"
    using assms obs_of_build_features[of xs] by (metis map_is_Nil_conv)
  have "timestamp (last (build_features xs)) = timestamp (obs_of (last (build_features xs)))"
    by (simp add: timestamp_obs_of)
  also have "\<dots> = timestamp (last (map obs_of (build_features xs)))"
    using assms by (simp add: last_map)
  also have "\<dots> = timestamp (last (tl (sort_key timestamp xs)))"
    by (simp only: obs_of_build_features)
  also have "\<dots> = timestamp (last (sort_key timestamp xs))"
    using ne by (simp add: last_tl)
  finally show ?thesis .
qed

lemma predict_start:
  assumes "ms z = Some m" and "build_features (zone_frame df z) \<noteq> []"
  shows "predict lib ms df z h =
     (case predict_loop lib m (nat h)
             \<lparr>current_ts = timestamp (last (sort_key timestamp (zone_frame df z))),
              current_row = last (build_features (sort_key timestamp (zone_frame df z))),
              preds = []\<rparr> of
        Inl e \<Rightarrow> Inl e
      | Inr s \<Rightarrow> Inr \<lparr>fr_zone_id = z, horizon_hours = h, predictions = preds s\<rparr>)"
proof -
  have ne: "build_features (sort_key timestamp (zone_frame df z)) \<noteq> []"
    using assms(2) length_features_sorted[of "zone_frame df z"] by (metis length_0_conv)
  have ts: "timestamp (last (build_features (sort_key timestamp (zone_frame df z))))
      = timestamp (last (sort_key timestamp (zone_frame df z)))"
    using last_build_features_timestamp[OF ne] by (simp add: sort_key_twice)
  show ?thesis
    using assms(1) ne by (simp add: predict_def Let_def ts)
qed

lemma predictions_of_loop:
  assumes "ms z = Some m" and "build_features (zone_frame df z) \<noteq> []"
      and "0 \<le> h"
      and "timestamp (last (sort_key timestamp (zone_frame df z))) + hour_ns * h \<le> timestamp_max"
  shows "predict lib ms df z h =
     Inr \<lparr>fr_zone_id = z, horizon_hours = h,
          predictions =
            map (emitted lib m
                   \<lparr>current_ts = timestamp (last (sort_key timestamp (zone_frame df z))),
                    current_row = last (build_features (sort_key timestamp (zone_frame df z))),
                    preds = []\<rparr>) [0..<nat h]\<rparr>"
proof -
  let ?s0 = "\<lparr>current_ts = timestamp (last (sort_key timestamp (zone_frame df z))),
              current_row = last (build_features (sort_key timestamp (zone_frame df z))),
              preds = []\<rparr>"
  have "current_ts ?s0 + hour_ns * int (nat h) \<le> timestamp_max"
    using assms(3,4) by simp
  then have "predict_loop lib m (nat h) ?s0 = Inr ((loop_body lib m ^^ nat h) ?s0)"
    by (rule predict_loop_ok)
  moreover have "predict lib ms df z h =
     (case predict_loop lib m (nat h) ?s0 of
        Inl e \<Rightarrow> Inl e
      | Inr s \<Rightarrow> Inr \<lparr>fr_zone_id = z, horizon_hours = h, predictions = preds s\<rparr>)"
    using assms(1,2) by (rule predict_start)
  ultimately show ?thesis
    by (simp add: preds_funpow)
qed

lemma length_demo_history: "length demo_history = 40"
  by (simp add: demo_history_def)

lemma zone_frame_demo_history: "zone_frame demo_history ''zone_01'' = demo_history"
  by (simp add: zone_frame_def demo_history_def demo_obs_def filter_map o_def)

lemma zone_frame_demo_rows: "zone_frame demo_rows ''zone_01'' = demo_rows"
  by (simp add: zone_frame_def demo_rows_def demo_obs_def)

lemma demo_history_timestamps:
  "r \<in> set (sort_key timestamp demo_history)
   \<Longrightarrow> 0 \<le> timestamp r \<and> timestamp r \<le> hour_ns * 39"
  by (auto simp: demo_history_def demo_obs_def hour_ns_def)

lemma last_demo_history:
  "0 \<le> timestamp (last (sort_key timestamp demo_history))"
  "timestamp (last (sort_key timestamp demo_history)) \<le> hour_ns * 39"
proof -
  have "sort_key timestamp demo_history \<noteq> []"
    using length_demo_history by (metis length_0_conv length_sort zero_neq_numeral)
  then have "last (sort_key timestamp demo_history) \<in> set (sort_key timestamp demo_history)"
    by (rule last_in_set)
  then show "0 \<le> timestamp (last (sort_key timestamp demo_history))"
    "timestamp (last (sort_key timestamp demo_history)) \<le> hour_ns * 39"
    using demo_history_timestamps by blast+
qed

lemma demo_history_features:
  "30 \<le> length (build_features (zone_frame demo_history ''zone_01''))"
  by (simp add: zone_frame_demo_history length_build_features length_demo_history)

lemma demo_history_trained:
  "train demo_fit demo_history ms ''zone_01''
     = Some (demo_fit (map feature_cols (build_features demo_history))
                      (map availability (build_features demo_history)))"
  by (simp add: train_lookup zone_frame_demo_history length_demo_history)

text \<open>
  Claim C1, as stated, fails: the forecast loop adds an hour to a pandas timestamp at each
  step, and that addition raises once the result is beyond the largest timestamp
  (2262-04-11). A history with at least 30 feature rows and a horizon of three million
  hours, which \<open>predict\<close> accepts, end in that error and not in predictions.
\<close>

theorem predict_horizon_beyond_timestamp_range:
  "30 \<le> length (build_features (zone_frame demo_history ''zone_01''))
   \<and> predict demo_lib (train demo_fit demo_history (forecaster demo_orchestrator)) demo_history ''zone_01'' 3000000
       = Inl OutOfBoundsDatetime"
proof -
  let ?s0 = "\<lparr>current_ts = timestamp (last (sort_key timestamp demo_history)),
              current_row = last (build_features (sort_key timestamp demo_history)),
              preds = []\<rparr>"
  let ?m = "demo_fit (map feature_cols (build_features demo_history))
                      (map availability (build_features demo_history))"
  have ne: "build_features (zone_frame demo_history ''zone_01'') \<noteq> []"
    using demo_history_features by auto
  have a: "current_ts ?s0 \<le> timestamp_max"
    using last_demo_history(2) by (simp add: hour_ns_def timestamp_max_def)
  have b: "timestamp_max < current_ts ?s0 + hour_ns * int (nat 3000000)"
    using last_demo_history(1) by (simp add: hour_ns_def timestamp_max_def)
  have "predict_loop demo_lib ?m (nat 3000000) ?s0 = Inl OutOfBoundsDatetime"
    using a b by (rule predict_loop_overflow)
  moreover have "predict demo_lib (train demo_fit demo_history (forecaster demo_orchestrator)) demo_history
               ''zone_01'' 3000000 =
     (case predict_loop demo_lib ?m (nat 3000000)
             \<lparr>current_ts = timestamp (last (sort_key timestamp
                                   (zone_frame demo_history ''zone_01''))),
              current_row = last (build_features (sort_key timestamp
                                   (zone_frame demo_history ''zone_01''))),
              preds = []\<rparr> of
        Inl e \<Rightarrow> Inl e
      | Inr s \<Rightarrow> Inr \<lparr>fr_zone_id = ''zone_01'', horizon_hours = 3000000,
                          predictions = preds s\<rparr>)"
    using demo_history_trained ne by (rule predict_start)
  ultimately have "predict demo_lib (train demo_fit demo_history (forecaster demo_orchestrator)) demo_history
               ''zone_01'' 3000000 = Inl OutOfBoundsDatetime"
    by (simp add: zone_frame_demo_history)
  with demo_history_features show ?thesis by blast
qed

text \<open>
  Claim C1, amended. When the history of a zone yields at least 30 feature rows and the
  instant \<open>H\<close> hours after its last observation is still a timestamp (at most
  2262-04-11T23:47:16.854775807), \<open>train\<close> followed by \<open>predict\<close> with the horizon \<open>H\<close> (a
  number of steps, so not negative) returns exactly \<open>H\<close> predictions, each predicted
  availability in \<open>[0, 1]\<close>, stamped with the instants one hour apart that follow the last
  observation, in strictly increasing order.
\<close>

theorem train_then_predict_horizon:
  assumes "30 \<le> length (build_features (zone_frame df z))" and "0 \<le> H"
      and "timestamp (last (sort_key timestamp (zone_frame df z))) + 3600000000000 * H
             \<le> 9223372036854775807"
  shows "\<exists>r ts. predict lib (train fit df ms) df z H = Inr r
     \<and> int (length (predictions r)) = H
     \<and> (\<forall>p \<in> set (predictions r).
           0 \<le> predicted_availability p \<and> predicted_availability p \<le> 1)
     \<and> map pred_timestamp (predictions r) = map (isoformat lib) ts
     \<and> ts = map (\<lambda>k. timestamp (last (sort_key timestamp (zone_frame df z)))
                         + 3600000000000 * (int k + 1)) [0..<nat H]
     \<and> sorted_wrt (<) ts"
proof -
  have big: "31 \<le> length (zone_frame df z)"
    using assms(1) by (simp add: length_build_features)
  then obtain m where m: "train fit df ms z = Some m"
    by (simp add: train_lookup)
  have ne: "build_features (zone_frame df z) \<noteq> []"
    using assms(1) by auto
  let ?t0 = "timestamp (last (sort_key timestamp (zone_frame df z)))"
  let ?ts = "map (\<lambda>k. ?t0 + 3600000000000 * (int k + 1)) [0..<nat H]"
  have bound: "?t0 + hour_ns * H \<le> timestamp_max"
    using assms(3) by (simp add: hour_ns_def timestamp_max_def)
  have p: "predict lib (train fit df ms) df z H =
     Inr \<lparr>fr_zone_id = z, horizon_hours = H,
          predictions =
            map (emitted lib m
                   \<lparr>current_ts = ?t0,
                    current_row = last (build_features (sort_key timestamp (zone_frame df z))),
                    preds = []\<rparr>) [0..<nat H]\<rparr>"
    using m ne assms(2) bound by (rule predictions_of_loop)
  have "sorted_wrt (<) ?ts"
    by (simp add: sorted_wrt_map sorted_wrt_iff_nth_less)
  moreover have "int (length [0..<nat H]) = H"
    using assms(2) by simp
  ultimately show ?thesis
    unfolding p
    by (intro exI[of _ "\<lparr>fr_zone_id = z, horizon_hours = H, predictions = _\<rparr>"] exI[of _ ?ts])
       (auto simp: emitted_def o_def py_round_unit clip_unit step_yhat_def hour_ns_def)
qed

theorem train_then_predict_horizon_witness:
  "30 \<le> length (build_features (zone_frame demo_history ''zone_01'')) \<and> (0::int) \<le> 6
   \<and> timestamp (last (sort_key timestamp (zone_frame demo_history ''zone_01'')))
         + 3600000000000 * 6 \<le> 9223372036854775807
   \<and> (\<exists>r. predict demo_lib (train demo_fit demo_history Map.empty) demo_history ''zone_01'' 6
              = Inr r
          \<and> length (predictions r) = 6)"
proof -
  have h1: "30 \<le> length (build_features (zone_frame demo_history ''zone_01''))"
    by (rule demo_history_features)
  have h2: "(0::int) \<le> 6" by simp
  have h3: "timestamp (last (sort_key timestamp (zone_frame demo_history ''zone_01'')))
              + 3600000000000 * 6 \<le> 9223372036854775807"
    using last_demo_history(2)
    by (simp add: zone_frame_demo_history hour_ns_def)
  from train_then_predict_horizon [OF h1 h2 h3, of demo_lib demo_fit Map.empty]
  obtain r where "predict demo_lib (train demo_fit demo_history Map.empty) demo_history
                    ''zone_01'' 6 = Inr r" and "int (length (predictions r)) = 6"
    by blast
  then have "\<exists>r. predict demo_lib (train demo_fit demo_history Map.empty) demo_history
                    ''zone_01'' 6 = Inr r \<and> length (predictions r) = 6"
    by (intro exI[of _ r]) simp
  with h1 h2 h3 show ?thesis by blast
qed

subsection \<open>Anomaly detection and the orchestrator\<close>

lemma length_tail: "length (tail n xs) = (if 0 \<le> n then min (nat n) (length xs) else length xs - nat (- n))"
  by (auto simp: tail_def)

lemma sorted_desc_sort_events:
  "sorted_wrt (\<lambda>a b. score b \<le> score a) (sort_events es)"
proof -
  have "sorted (map (\<lambda>e. - score e) (sort_key (\<lambda>e. - score e) es))"
    by (rule sorted_sort_key)
  then show ?thesis
    by (simp add: sort_events_def sorted_wrt_map)
qed

lemma set_sort_events: "set (sort_events es) = set es"
  by (simp add: sort_events_def)

lemma length_sort_events: "length (sort_events es) = length es"
  by (simp add: sort_events_def)

lemma detect_enough:
  assumes "20 \<le> length (tail lookback (sort_key timestamp (zone_frame df z)))"
  shows "detect lib forest c df z lookback =
     Inr \<lparr>ar_zone_id = z,
          events = sort_events
            (map (make_event lib (forest c (map metric_cols
                     (tail lookback (sort_key timestamp (zone_frame df z))))))
               (filter (is_anomaly (forest c (map metric_cols
                     (tail lookback (sort_key timestamp (zone_frame df z))))))
                  (tail lookback (sort_key timestamp (zone_frame df z)))))\<rparr>"
  using assms by (simp add: detect_def Let_def)

lemma sorted_demo_history: "sort_key timestamp demo_history = demo_history"
  by (rule sort_key_id_if_sorted)
     (auto simp: sorted_iff_nth_mono demo_history_def demo_obs_def hour_ns_def)

lemma window_demo_history:
  "length (tail 120 (sort_key timestamp (zone_frame demo_history ''zone_01''))) = 40"
  by (simp add: length_tail zone_frame_demo_history length_demo_history)

lemma window_demo_rows:
  "length (tail 120 (sort_key timestamp (zone_frame demo_rows ''zone_01''))) = 3"
  by (simp add: length_tail zone_frame_demo_rows) (simp add: demo_rows_def)

lemma recent_demo_history:
  "tail 20 (sort_key timestamp (zone_frame demo_history ''zone_01'')) = map demo_obs [20..<40]"
proof -
  have "tail 20 (sort_key timestamp (zone_frame demo_history ''zone_01''))
          = drop 20 demo_history"
    by (simp add: zone_frame_demo_history sorted_demo_history tail_def length_demo_history)
  also have "\<dots> = map demo_obs [20..<40]"
    by (simp add: demo_history_def drop_map del: upt_rec_numeral)
  finally show ?thesis .
qed

text \<open>
  Claim C4. The events that anomaly detection returns are in descending order of score,
  and they are exactly the events of the rows of the window that the fitted outlier model
  flagged (label \<open>-1\<close>): every event is that of a flagged row, with the row's zone,
  timestamp and metrics and the rounded negated \<open>score_samples\<close> of the row as its score;
  every flagged row has its event in the list; and there are as many events as flagged
  rows.
\<close>

theorem detect_events_sorted_and_flagged:
  assumes "20 \<le> length (tail lookback (sort_key timestamp (zone_frame df z)))"
  shows "\<exists>r. detect lib forest c df z lookback = Inr r
    \<and> sorted_wrt (\<lambda>a b. score b \<le> score a) (events r)
    \<and> (let window = tail lookback (sort_key timestamp (zone_frame df z));
            cols = (\<lambda>row. [demand row, drivers row, inventory row, availability row]);
            f = forest c (map cols window);
            flagged = (\<lambda>row. if_predict f (cols row) = - 1);
            event_of = (\<lambda>row.
              \<lparr>event_id = zone_id row @ '':'' @ isoformat lib (timestamp row),
               ev_timestamp = isoformat lib (timestamp row),
               ev_zone_id = zone_id row,
               score = py_round lib (- score_samples f (cols row)) 4,
               snapshot = \<lparr>snap_demand = demand row, snap_drivers = drivers row,
                           snap_inventory = inventory row,
                           snap_availability = availability row,
                           snap_weather = weather row\<rparr>\<rparr>)
        in (\<forall>e \<in> set (events r). \<exists>row \<in> set window. flagged row \<and> e = event_of row)
           \<and> (\<forall>row \<in> set window. flagged row \<longrightarrow> event_of row \<in> set (events r))
           \<and> length (events r) = length (filter flagged window))"
proof -
  have c: "metric_cols = (\<lambda>row. [demand row, drivers row, inventory row, availability row])"
    by (rule ext) (simp add: metric_cols_def)
  have a: "is_anomaly f = (\<lambda>row. if_predict f (metric_cols row) = - 1)" for f
    by (rule ext) (simp add: is_anomaly_def)
  show ?thesis
    unfolding detect_enough[OF assms] Let_def c[symmetric] a
    by (auto simp: sorted_desc_sort_events set_sort_events length_sort_events make_event_def)
qed

theorem detect_events_sorted_and_flagged_witness:
  "20 \<le> length (tail 20 (sort_key timestamp (zone_frame demo_history ''zone_01'')))
   \<and> (\<exists>r. detect demo_lib (demo_forest (3 / 4)) (7 / 100) demo_history ''zone_01'' 20 = Inr r
          \<and> sorted_wrt (\<lambda>a b. score b \<le> score a) (events r)
          \<and> map score (events r)
              = [119 / 1000, 117 / 1000, 115 / 1000, 113 / 1000, 111 / 1000,
                 109 / 1000, 107 / 1000, 105 / 1000, 103 / 1000, 101 / 1000])"
proof -
  have h: "20 \<le> length (tail 20 (sort_key timestamp (zone_frame demo_history ''zone_01'')))"
    by (simp add: recent_demo_history)
  from detect_events_sorted_and_flagged [OF h, of demo_lib "demo_forest (3 / 4)" "7 / 100"]
  obtain r where d: "detect demo_lib (demo_forest (3 / 4)) (7 / 100) demo_history ''zone_01'' 20
                       = Inr r"
    and s: "sorted_wrt (\<lambda>a b. score b \<le> score a) (events r)"
    by blast
  have "map score (events r)
              = [119 / 1000, 117 / 1000, 115 / 1000, 113 / 1000, 111 / 1000,
                 109 / 1000, 107 / 1000, 105 / 1000, 103 / 1000, 101 / 1000]"
    using d unfolding detect_enough[OF h] recent_demo_history
    by (auto simp: sort_events_def make_event_def is_anomaly_def demo_forest_def metric_cols_def
          demo_obs_def py_round_def Let_def)
  with h d s show ?thesis
    by (intro conjI exI[of _ r])
qed

text \<open>
  Claim C2. Anomaly detection on a window (the zone's most recent \<open>lookback\<close> observations)
  of fewer than 20 rows raises the insufficient-records error, and prediction for a zone
  without a trained model raises the no-model error. Both reach the caller: a pipeline run
  raises too, with the no-model error when training left the zone without a model.
\<close>

theorem insufficient_data_and_missing_model_raise:
  "(length (tail lookback (sort_key timestamp (zone_frame df z))) < 20 \<longrightarrow>
      detect lib forest c df z lookback
        = Inl (ValueError (''Insufficient records for anomaly detection in '' @ z))
      \<and> isl (snd (snd (run e orch df z h lookback))))
   \<and> (ms z = None \<longrightarrow>
        predict plib ms df z h = Inl (ValueError (''No model trained for '' @ z)))
   \<and> (train (env_fit e) df (forecaster orch) z = None \<longrightarrow>
        snd (snd (run e orch df z h lookback))
          = Inl (ValueError (''No model trained for '' @ z)))"
  by (auto simp: detect_def predict_def run_def Let_def split: sum.splits)

theorem insufficient_data_and_missing_model_raise_witness:
  "length (tail 120 (sort_key timestamp (zone_frame demo_rows ''zone_01''))) < 20
   \<and> detect demo_lib (demo_forest (3 / 4)) (7 / 100) demo_rows ''zone_01'' 120
       = Inl (ValueError ''Insufficient records for anomaly detection in zone_01'')
   \<and> predict demo_lib Map.empty demo_rows ''zone_01'' 6
       = Inl (ValueError ''No model trained for zone_01'')
   \<and> snd (snd (run (demo_env (3 / 4)) demo_orchestrator demo_rows ''zone_01'' 6 120))
       = Inl (ValueError ''No model trained for zone_01'')"
proof -
  have h1: "length (tail 120 (sort_key timestamp (zone_frame demo_rows ''zone_01''))) < 20"
    by (simp add: window_demo_rows)
  have h2: "(Map.empty :: models) ''zone_01'' = None" by simp
  have h3: "train (env_fit (demo_env (3 / 4))) demo_rows (forecaster demo_orchestrator) ''zone_01''
              = None"
    by (simp add: train_lookup zone_frame_demo_rows demo_orchestrator_def)
       (simp add: demo_rows_def)
  from insufficient_data_and_missing_model_raise
         [where lookback = 120 and df = demo_rows and z = "''zone_01''" and lib = demo_lib
            and forest = "demo_forest (3 / 4)" and c = "7 / 100" and ms = Map.empty
            and plib = demo_lib and h = 6 and e = "demo_env (3 / 4)"
            and orch = demo_orchestrator]
       h1 h2 h3
  show ?thesis by simp
qed

text \<open>
  Claim C3. In a run whose anomaly stage returns no event, neither the reasoning agent nor
  the action agent is called (the calls of the run are \<open>train\<close>, \<open>predict\<close> and \<open>detect\<close>,
  and the reasoning agent is left as it was); the output, which exists whenever the
  forecast stage succeeds, has no reasoning and no actions, and its last two traces are
  the reason and action steps with status skipped and latency 0.
\<close>

theorem run_skips_reasoning_without_events:
  assumes "detect (env_lib e) (env_forest e) (anomaly_contamination orch) df z lookback = Inr ar"
      and "events ar = []"
  shows "fst (snd (run e orch df z h lookback)) = [CallTrain, CallPredict, CallDetect]
     \<and> reasoner (fst (run e orch df z h lookback)) = reasoner orch
     \<and> (\<forall>out. snd (snd (run e orch df z h lookback)) = Inr out \<longrightarrow>
           reasoning out = None \<and> actions out = None
           \<and> drop 2 (traces out)
               = [\<lparr>step = ''reason'', status = ''skipped'', latency_ms = 0,
                    details = [(''reason'', JStr ''No anomaly events'')]\<rparr>,
                  \<lparr>step = ''action'', status = ''skipped'', latency_ms = 0,
                    details = [(''reason'', JStr ''No anomaly events'')]\<rparr>])
     \<and> (\<forall>fr. predict (env_lib e) (train (env_fit e) df (forecaster orch)) df z h = Inr fr
           \<longrightarrow> (\<exists>out. snd (snd (run e orch df z h lookback)) = Inr out))"
  using assms
  by (auto simp: run_def Let_def skipped_trace_def split: sum.splits)

theorem run_skips_reasoning_without_events_witness:
  "detect (env_lib (demo_env 0)) (env_forest (demo_env 0))
       (anomaly_contamination demo_orchestrator) demo_history ''zone_01'' 120
     = Inr \<lparr>ar_zone_id = ''zone_01'', events = []\<rparr>
   \<and> events \<lparr>ar_zone_id = ''zone_01'', events = []\<rparr> = []
   \<and> fst (snd (run (demo_env 0) demo_orchestrator demo_history ''zone_01'' 6 120))
       = [CallTrain, CallPredict, CallDetect]
   \<and> (\<exists>out. snd (snd (run (demo_env 0) demo_orchestrator demo_history ''zone_01'' 6 120))
               = Inr out
            \<and> reasoning out = None \<and> actions out = None)"
proof -
  have flagged: "filter (is_anomaly (demo_forest 0 c X)) (tail 120 (sort_key timestamp demo_history)) = []"
    for c X
    by (auto simp: filter_empty_conv is_anomaly_def demo_forest_def metric_cols_def tail_def
          demo_history_def demo_obs_def sorted_demo_history dest!: in_set_dropD)
  have h1: "detect (env_lib (demo_env 0)) (env_forest (demo_env 0))
       (anomaly_contamination demo_orchestrator) demo_history ''zone_01'' 120
     = Inr \<lparr>ar_zone_id = ''zone_01'', events = []\<rparr>"
    using window_demo_history
    by (simp add: detect_enough demo_env_def zone_frame_demo_history flagged sort_events_def)
  have h2: "events \<lparr>ar_zone_id = ''zone_01'', events = []\<rparr> = []" by simp
  have "build_features (zone_frame demo_history ''zone_01'') \<noteq> []"
    using length_build_features[of demo_history]
    by (auto simp: zone_frame_demo_history length_demo_history)
  moreover have "train (env_fit (demo_env 0)) demo_history (forecaster demo_orchestrator)
                     ''zone_01''
       = Some (demo_fit (map feature_cols (build_features demo_history))
                        (map availability (build_features demo_history)))"
    by (simp add: demo_env_def demo_history_trained)
  moreover have "(0::int) \<le> 6" by simp
  moreover have "timestamp (last (sort_key timestamp (zone_frame demo_history ''zone_01'')))
              + hour_ns * 6 \<le> timestamp_max"
    using last_demo_history(2)
    by (simp add: zone_frame_demo_history hour_ns_def timestamp_max_def)
  ultimately have h3: "\<exists>fr. predict (env_lib (demo_env 0))
          (train (env_fit (demo_env 0)) demo_history (forecaster demo_orchestrator))
          demo_history ''zone_01'' 6 = Inr fr"
    using predictions_of_loop by blast
  from run_skips_reasoning_without_events [OF h1 h2, of 6] h3
  have "fst (snd (run (demo_env 0) demo_orchestrator demo_history ''zone_01'' 6 120))
       = [CallTrain, CallPredict, CallDetect]"
    and "\<exists>out. snd (snd (run (demo_env 0) demo_orchestrator demo_history ''zone_01'' 6 120))
               = Inr out
            \<and> reasoning out = None \<and> actions out = None"
    by blast+
  with h1 h2 show ?thesis by blast
qed

subsection \<open>Reasoning memory\<close>

lemma entry_remember:
  "entry (remember a key text eid rating) k = (if k = key then Some text else entry a k)"
  by (simp add: entry_def remember_def split: option.splits)

lemma feedback_id_neq: "feedback_id eid rating \<noteq> eid"
proof
  assume "feedback_id eid rating = eid"
  then have "length (feedback_id eid rating) = length eid" by simp
  then show False by (simp add: feedback_id_def)
qed

text \<open>
  Claim C9. For every event id, correction and rating, \<open>ingest_feedback\<close> writes its entry
  under the composite key \<open>feedback:<event id>:<rating>\<close>, which differs from the event
  id; every other entry of the memory, that under the event id in particular, is left as
  it was.
\<close>

theorem feedback_keeps_original_entry:
  "feedback_id eid rating \<noteq> eid
   \<and> entry (ingest_feedback a eid correction rating)
       = (entry a)(feedback_id eid rating \<mapsto>
            ''feedback for '' @ eid @ '': rating='' @ show_int rating
              @ ''; correction='' @ correction)
   \<and> entry (ingest_feedback a eid correction rating) eid = entry a eid"
proof (intro conjI)
  show ne: "feedback_id eid rating \<noteq> eid"
    by (rule feedback_id_neq)
  show "entry (ingest_feedback a eid correction rating)
       = (entry a)(feedback_id eid rating \<mapsto>
            ''feedback for '' @ eid @ '': rating='' @ show_int rating
              @ ''; correction='' @ correction)"
    unfolding ingest_feedback_def by (rule ext) (simp only: entry_remember fun_upd_apply)
  show "entry (ingest_feedback a eid correction rating) eid = entry a eid"
    unfolding ingest_feedback_def using ne by (simp only: entry_remember) simp
qed

subsection \<open>The local fallback of the reasoning agent\<close>






subsection \<open>Business impact\<close>

lemma ops_hours_exact:
  "py_round lib (real_of_int a * (35 / 100) + real_of_int k * (22 / 100)) 2
     = real_of_int a * (35 / 100) + real_of_int k * (22 / 100)"
proof -
  have "real_of_int a * (35 / 100) + real_of_int k * (22 / 100)
          = real_of_int (35 * a + 22 * k) / 10 ^ 2"
    by simp
  then show ?thesis
    by (simp only: py_round_exact)
qed

text \<open>
  Claim C7, as stated, fails: the acceptance rate is clamped at 1 and the rates are
  rounded, so it is not acknowledged / generated when more actions are acknowledged than
  generated (nor exactly so for 1 of 3), and the MTTR reduction follows the clamped rate;
  a baseline that is not positive counts as 1.
\<close>

theorem estimate_impact_clamps_and_rounds:
  "action_acceptance_rate (estimate_impact demo_lib 1 2 3 1) \<noteq> real_of_int 3 / real_of_int 2
   \<and> estimated_mttr_reduction_minutes (estimate_impact demo_lib 1 2 3 1)
        \<noteq> 12 + 38 * (real_of_int 3 / real_of_int 2)
   \<and> action_acceptance_rate (estimate_impact demo_lib 0 3 1 1) \<noteq> real_of_int 1 / real_of_int 3
   \<and> incident_prevention_rate (estimate_impact demo_lib 1 0 0 (- 1))
        \<noteq> min 1 (real_of_int 1 / real_of_int (- 1))"
  by (simp add: estimate_impact_def py_round_def Let_def)

text \<open>
  Claim C7, amended. With a baseline that is not positive replaced by 1, the estimator
  returns incident_prevention_rate = min(1, anomalies / baseline) rounded to 4 decimals,
  action_acceptance_rate = min(1, acknowledged / generated) (0 when none generated) rounded
  to 4 decimals, MTTR reduction = 12 + 38 * (that rate, before rounding) rounded to 2
  decimals, each within half a unit of its last decimal of the formula, and ops-hours
  saved = anomalies * 0.35 + acknowledged * 0.22 exactly. For 5, 10, 6, 2 it returns
  exactly 1.0, 0.6, 34.8 and 3.07.
\<close>

theorem estimate_impact_formulas:
  "(let r = estimate_impact lib a g k b;
        baseline = (if b \<le> 0 then 1 else b);
        rate = min 1 (real_of_int a / real_of_int baseline);
        acceptance = (if g = 0 then 0 else min 1 (real_of_int k / real_of_int g))
    in incident_prevention_rate r = py_round lib rate 4
       \<and> \<bar>incident_prevention_rate r - rate\<bar> \<le> 1 / 20000
       \<and> action_acceptance_rate r = py_round lib acceptance 4
       \<and> \<bar>action_acceptance_rate r - acceptance\<bar> \<le> 1 / 20000
       \<and> estimated_mttr_reduction_minutes r = py_round lib (12 + 38 * acceptance) 2
       \<and> \<bar>estimated_mttr_reduction_minutes r - (12 + 38 * acceptance)\<bar> \<le> 1 / 200
       \<and> estimated_ops_hours_saved r
            = real_of_int a * (35 / 100) + real_of_int k * (22 / 100))
   \<and> estimate_impact lib 5 10 6 2
       = \<lparr>incident_prevention_rate = 1, estimated_mttr_reduction_minutes = 348 / 10,
          action_acceptance_rate = 6 / 10, estimated_ops_hours_saved = 307 / 100\<rparr>"
proof -
  have e4: "\<bar>py_round lib x 4 - x\<bar> \<le> 1 / 20000" for x
    using py_round_err[of lib x 4] by simp
  have e2: "\<bar>py_round lib x 2 - x\<bar> \<le> 1 / 200" for x
    using py_round_err[of lib x 2] by simp
  have ex: "estimate_impact lib 5 10 6 2
       = \<lparr>incident_prevention_rate = 1, estimated_mttr_reduction_minutes = 348 / 10,
          action_acceptance_rate = 6 / 10, estimated_ops_hours_saved = 307 / 100\<rparr>"
    by (simp add: estimate_impact_def py_round_def Let_def)
  show ?thesis
    unfolding Let_def
    apply (intro conjI)
           apply (simp_all only: ex)
          apply (simp_all only: estimate_impact_def Let_def business_impact.simps e4 e2 ops_hours_exact)
    done
qed

subsection \<open>Replay metrics\<close>

lemma map2_diff_self: "map2 (-) xs xs = map (\<lambda>_. 0::real) xs"
  by (induction xs) simp_all

lemma sum_list_zeros: "sum_list (map (\<lambda>_. 0::real) xs) = 0"
  by (induction xs) simp_all

lemma mape_self: "mape (x # xs) (x # xs) = Inr (Some 0)"
proof -
  have "map2 (/) (map (\<lambda>_. 0::real) ys) (map f ys) = map (\<lambda>_. 0) ys" for ys and f :: "real \<Rightarrow> real"
    by (induction ys) simp_all
  then show ?thesis
    by (simp add: mape_def broadcast2_def Let_def map2_diff_self np_mean_def mean_def sum_list_zeros o_def)
qed

lemma rmse_self: "rmse (x # xs) (x # xs) = Inr (Some 0)"
  by (simp add: rmse_def broadcast2_def map2_diff_self np_mean_def mean_def sum_list_zeros o_def)

lemma sqrt_bounds: "282 / 10000 < sqrt (1 / 1250)" "sqrt (1 / 1250) < 283 / 10000"
proof -
  have "(282 / 10000)\<^sup>2 < (1 / 1250 :: real)" by (simp add: power2_eq_square)
  then show "282 / 10000 < sqrt (1 / 1250)"
    by (rule real_less_rsqrt)
  have "(1 / 1250 :: real) < (283 / 10000)\<^sup>2" by (simp add: power2_eq_square)
  then show "sqrt (1 / 1250) < 283 / 10000"
    by (intro real_less_lsqrt) simp_all
qed

text \<open>
  Claim C8, as stated, fails: on the documented example MAPE is 247/7560, about 0.0327,
  which is above 0.03; and on empty inputs both metrics are NaN, not 0.
\<close>

theorem replay_metrics_documented_example_off:
  "mape [8 / 10, 7 / 10, 9 / 10] [78 / 100, 72 / 100, 86 / 100] = Inr (Some (247 / 7560))
   \<and> \<not> ((247 / 7560 :: real) \<le> 3 / 100)
   \<and> mape [] [] = Inr None \<and> rmse [] [] = Inr None"
  by (simp add: mape_def rmse_def broadcast2_def np_mean_def mean_def Let_def)

text \<open>
  Claim C8, amended. On non-empty inputs MAPE and RMSE are 0 when the predictions equal
  the true values, the denominator of MAPE being floored at 1e-6 (a prediction of 1e-7
  for a true value 0 gives 0.1); on y_true = [0.8, 0.7, 0.9], y_pred = [0.78, 0.72, 0.86]
  MAPE is 247/7560, between 0.0326 and 0.0327, and RMSE is the square root of 0.0008,
  between 0.0282 and 0.0283.
\<close>

theorem replay_metrics_values:
  "mape (x # xs) (x # xs) = Inr (Some 0) \<and> rmse (x # xs) (x # xs) = Inr (Some 0)
   \<and> mape [8 / 10, 7 / 10, 9 / 10] [78 / 100, 72 / 100, 86 / 100] = Inr (Some (247 / 7560))
   \<and> 326 / 10000 < (247 / 7560 :: real) \<and> (247 / 7560 :: real) < 327 / 10000
   \<and> rmse [8 / 10, 7 / 10, 9 / 10] [78 / 100, 72 / 100, 86 / 100] = Inr (Some (sqrt (1 / 1250)))
   \<and> 282 / 10000 < sqrt (1 / 1250) \<and> sqrt (1 / 1250) < 283 / 10000
   \<and> mape [0] [1 / 10 ^ 7] = Inr (Some (1 / 10))"
proof -
  have m: "mape [8 / 10, 7 / 10, 9 / 10] [78 / 100, 72 / 100, 86 / 100] = Inr (Some (247 / 7560))"
    by (simp add: mape_def broadcast2_def np_mean_def mean_def Let_def)
  have r: "rmse [8 / 10, 7 / 10, 9 / 10] [78 / 100, 72 / 100, 86 / 100] = Inr (Some (sqrt (1 / 1250)))"
    by (simp add: rmse_def broadcast2_def np_mean_def mean_def Let_def power2_eq_square)
  have f: "mape [0] [1 / 10 ^ 7] = Inr (Some (1 / 10))"
    by (simp add: mape_def broadcast2_def np_mean_def mean_def Let_def)
  show ?thesis
    using mape_self rmse_self m r f sqrt_bounds by simp
qed

end
